theory Spec2Isabelle
  imports Complex_Main "HOL-Library.AList" "HOL-Library.Char_ord" "HOL-Library.List_Lexorder"
begin

section \<open>Data model of the persisted document\<close>

text \<open>
  The script keeps one JSON document in localStorage: the items (an object keyed by the
  normalized item name), the sales (an array) and the monthly snapshots (an object keyed by
  month).  Objects are association lists in insertion order (the order of \<open>Object.values\<close>
  for keys that are not array indices), arrays are lists.  Every field that the script
  writes is present, so the defaults of the script for absent fields (\<open>s.profit || 0\<close>,
  \<open>item.priceHistory || []\<close>) are the fields themselves.

  Numbers: a form field read with \<open>parseFloat\<close> or \<open>parseInt\<close> is either \<open>NaN\<close> or a
  number; prices are rationals and quantities are integers, with exact arithmetic (the
  rounding of IEEE doubles and the infinities are outside this model).  Strings are lists
  of characters; \<open>localeCompare\<close> is the lexicographic order of the characters, which is
  what it computes on dates of the form YYYY-MM-DD.
\<close>

datatype 'a parsed = NaN | Num 'a

record price_entry =
  ph_price :: rat
  ph_date :: string

record qty_entry =
  qh_month :: string
  qh_date :: string
  qh_delta :: int
  qh_source :: string

record item =
  name :: string
  priceHistory :: "price_entry list"
  quantities :: "(string \<times> int) list"
  qtyHistory :: "qty_entry list"

record sale =
  s_date :: string
  s_buyer :: string
  s_address :: string
  s_contact :: string
  s_item :: string
  s_price :: rat
  s_qty :: int
  s_total :: rat
  s_profit :: rat
  s_profitIsManual :: bool

record snapshot =
  generatedAt :: string
  snap_itemsTotal :: rat
  snap_salesTotal :: rat
  snap_salesProfit :: rat
  snap_salesCount :: nat

record document =
  items :: "(string \<times> item) list"
  sales :: "sale list"
  monthlySnapshots :: "(string \<times> snapshot) list"

text \<open>What a handler reports instead of saving: the alert of a rejected form, the alert
  of an unknown item (or the silent return of the table handlers), nothing selected, and a
  declined confirmation.\<close>

datatype error = ValidationError | NotFoundError | NothingSelected | NotConfirmed

text \<open>The document in the store after a handler ran on \<open>st\<close>: a handler that returns
  early never calls \<open>saveState\<close>.\<close>

definition persisted :: "document \<Rightarrow> error + document \<Rightarrow> document" where
  "persisted st r = (case r of Inl e \<Rightarrow> st | Inr st' \<Rightarrow> st')"

definition emptyState :: document where
  "emptyState = \<lparr>items = [], sales = [], monthlySnapshots = []\<rparr>"

section \<open>Helpers of the script\<close>

text \<open>\<open>trim\<close> removes the ASCII white space at both ends and \<open>toLowerCase\<close> folds the
  ASCII letters; what the two do to other characters is outside the model.\<close>

definition isSpace :: "char \<Rightarrow> bool" where
  "isSpace c = (c \<in> set [CHR '' '', CHR 0x09, CHR 0x0A, CHR 0x0B, CHR 0x0C, CHR 0x0D])"

definition trim :: "string \<Rightarrow> string" where
  "trim s = rev (dropWhile isSpace (rev (dropWhile isSpace s)))"

definition toLowerChar :: "char \<Rightarrow> char" where
  "toLowerChar c =
     (case map_of (zip ''ABCDEFGHIJKLMNOPQRSTUVWXYZ'' ''abcdefghijklmnopqrstuvwxyz'') c of
        Some l \<Rightarrow> l
      | None \<Rightarrow> c)"

definition toLowerCase :: "string \<Rightarrow> string" where
  "toLowerCase s = map toLowerChar s"

definition normalizeName :: "string \<Rightarrow> string" where
  "normalizeName nm = toLowerCase (trim nm)"

text \<open>\<open>today\<close> is \<open>new Date().toISOString().slice(0,10)\<close>, read by the caller.\<close>

definition ymd :: "string \<Rightarrow> string \<Rightarrow> string" where
  "ymd today d = (if d = [] then today else d)"

definition ym :: "string \<Rightarrow> string \<Rightarrow> string" where
  "ym today d = take 7 (ymd today d)"

text \<open>\<open>Array.prototype.sort\<close> is stable, as \<open>sort_key\<close> is; \<open>pop\<close> takes the last
  element of the sorted copy.\<close>

definition getLatestPrice :: "item \<Rightarrow> rat" where
  "getLatestPrice it =
     (let hist = priceHistory it
      in if length hist = 0 then 0 else ph_price (last (sort_key ph_date hist)))"

definition logQuantityChange :: "item \<Rightarrow> string \<Rightarrow> string \<Rightarrow> int \<Rightarrow> string \<Rightarrow> item" where
  "logQuantityChange it month dateStr delta source =
     (if delta = 0 then it
      else it\<lparr>qtyHistory := qtyHistory it @
             [\<lparr>qh_month = month, qh_date = dateStr, qh_delta = delta, qh_source = source\<rparr>]\<rparr>)"

text \<open>\<open>item.quantities[month] || 0\<close>\<close>

definition qtyOr0 :: "item \<Rightarrow> string \<Rightarrow> int" where
  "qtyOr0 it month = (case map_of (quantities it) month of None \<Rightarrow> 0 | Some q \<Rightarrow> q)"

definition setQty :: "item \<Rightarrow> string \<Rightarrow> int \<Rightarrow> item" where
  "setQty it month q = it\<lparr>quantities := AList.update month q (quantities it)\<rparr>"

definition pushPrice :: "item \<Rightarrow> rat \<Rightarrow> string \<Rightarrow> item" where
  "pushPrice it p d = it\<lparr>priceHistory := priceHistory it @ [\<lparr>ph_price = p, ph_date = d\<rparr>]\<rparr>"

definition putItem :: "document \<Rightarrow> string \<Rightarrow> item \<Rightarrow> document" where
  "putItem st k it = st\<lparr>items := AList.update k it (items st)\<rparr>"

section \<open>Item ledger handlers\<close>

text \<open>The submit handler of the add form (\<open>upsertItem\<close>).\<close>

definition upsertItem ::
  "string \<Rightarrow> string \<Rightarrow> rat parsed \<Rightarrow> int parsed \<Rightarrow> string \<Rightarrow> document \<Rightarrow> error + document" where
  "upsertItem today rawName price qty d st =
     (let nm = trim rawName in
      case price of
        NaN \<Rightarrow> Inl ValidationError
      | Num p \<Rightarrow>
         (case qty of
            NaN \<Rightarrow> Inl ValidationError
          | Num q \<Rightarrow>
             (if nm = [] \<or> q \<le> 0 then Inl ValidationError
              else
                (let monthKey = ym today d; k = normalizeName nm in
                 case map_of (items st) k of
                   None \<Rightarrow> Inr (putItem st k
                     \<lparr>name = trim nm,
                      priceHistory = [\<lparr>ph_price = p, ph_date = ymd today d\<rparr>],
                      quantities = [(monthKey, q)],
                      qtyHistory = [\<lparr>qh_month = monthKey, qh_date = ymd today d,
                                     qh_delta = q, qh_source = ''addForm''\<rparr>]\<rparr>)
                 | Some it \<Rightarrow>
                    (let latestPrice = getLatestPrice it;
                         it1 = (if latestPrice \<noteq> p then pushPrice it p (ymd today d) else it);
                         it2 = setQty it1 monthKey (qtyOr0 it1 monthKey + q);
                         it3 = logQuantityChange it2 monthKey (ymd today d) q ''addForm''
                     in Inr (putItem st k it3))))))"

text \<open>The submit handler of the update form (\<open>updatePrice\<close>).\<close>

definition updatePrice ::
  "string \<Rightarrow> string \<Rightarrow> rat parsed \<Rightarrow> string \<Rightarrow> document \<Rightarrow> error + document" where
  "updatePrice today rawName price d st =
     (let nm = trim rawName in
      case price of
        NaN \<Rightarrow> Inl ValidationError
      | Num p \<Rightarrow>
         (if nm = [] then Inl ValidationError
          else
            (let k = normalizeName nm in
             case map_of (items st) k of
               None \<Rightarrow> Inl NotFoundError
             | Some it \<Rightarrow> Inr (putItem st k (pushPrice it p (ymd today d))))))"

text \<open>The click handler of the delete button (\<open>deleteItems\<close>): \<open>keys\<close> are the
  \<open>data-key\<close> attributes of the checked boxes, \<open>confirmed\<close> the answer to the dialog.\<close>

definition deleteItems :: "string list \<Rightarrow> bool \<Rightarrow> document \<Rightarrow> error + document" where
  "deleteItems keys confirmed st =
     (if length keys = 0 then Inl NothingSelected
      else if \<not> confirmed then Inl NotConfirmed
      else Inr (st\<lparr>items := foldl (\<lambda>its k. AList.delete k its) (items st) keys\<rparr>))"

text \<open>The input handler of the inline quantity field (\<open>setQuantity\<close>); \<open>month\<close> is the
  value of the month selector, or the current month.\<close>

definition setQuantity ::
  "string \<Rightarrow> string \<Rightarrow> int parsed \<Rightarrow> string \<Rightarrow> document \<Rightarrow> error + document" where
  "setQuantity today k input month st =
     (let qty = (case input of NaN \<Rightarrow> 0 | Num q \<Rightarrow> if q < 0 then 0 else q) in
      case map_of (items st) k of
        None \<Rightarrow> Inl NotFoundError
      | Some it \<Rightarrow>
          let current = qtyOr0 it month;
              delta = qty - current;
              it1 = setQty it month qty
          in Inr (putItem st k (logQuantityChange it1 month today delta ''inlineEdit'')))"

text \<open>The change handler of the inline price field.\<close>

definition inlinePrice :: "string \<Rightarrow> string \<Rightarrow> rat parsed \<Rightarrow> document \<Rightarrow> error + document" where
  "inlinePrice today k input st =
     (case input of
        NaN \<Rightarrow> Inl ValidationError
      | Num p \<Rightarrow>
         (if p < 0 then Inl ValidationError
          else
            (case map_of (items st) k of
               None \<Rightarrow> Inl NotFoundError
             | Some it \<Rightarrow>
                (let latest = getLatestPrice it in
                 if latest \<noteq> p then Inr (putItem st k (pushPrice it p today)) else Inr st))))"

text \<open>The click handler of the stepper buttons (\<open>adjustQuantity\<close>): \<open>dec\<close> is true for
  the minus button.\<close>

definition adjustQuantity ::
  "string \<Rightarrow> string \<Rightarrow> bool \<Rightarrow> string \<Rightarrow> document \<Rightarrow> error + document" where
  "adjustQuantity today k dec month st =
     (case map_of (items st) k of
        None \<Rightarrow> Inl NotFoundError
      | Some it \<Rightarrow>
          let current = qtyOr0 it month;
              next = (if dec then max 0 (current - 1) else current + 1);
              delta = next - current;
              it1 = setQty it month next
          in Inr (putItem st k
                (logQuantityChange it1 month today delta (if dec then ''minus'' else ''plus''))))"

section \<open>Sales ledger\<close>

text \<open>The submit handler of the sale form (\<open>recordSale\<close>).  \<open>manualProfitVal\<close> is
  \<open>None\<close> for \<open>null\<close> (no profit field, or an empty one), otherwise what
  \<open>parseFloat\<close> made of the field.\<close>

definition recordSale ::
  "string \<Rightarrow> string \<Rightarrow> string \<Rightarrow> string \<Rightarrow> string \<Rightarrow> string \<Rightarrow> rat parsed \<Rightarrow> int parsed \<Rightarrow>
   rat parsed option \<Rightarrow> document \<Rightarrow> error + document" where
  "recordSale today d rawBuyer rawAddress rawContact rawItem price qty manualProfitVal st =
     (let byr = trim rawBuyer; addr = trim rawAddress; cont = trim rawContact;
          itemName = trim rawItem in
      case price of
        NaN \<Rightarrow> Inl ValidationError
      | Num p \<Rightarrow>
         (case qty of
            NaN \<Rightarrow> Inl ValidationError
          | Num q \<Rightarrow>
             (if d = [] \<or> byr = [] \<or> addr = [] \<or> cont = [] \<or> itemName = [] \<or> q \<le> 0
              then Inl ValidationError
              else
                (let monthKey = ym today d; k = normalizeName itemName in
                 case map_of (items st) k of
                   None \<Rightarrow> Inl NotFoundError
                 | Some it \<Rightarrow>
                    (let costPerUnit = getLatestPrice it;
                         total = p * of_int q;
                         autoProfit = (p - costPerUnit) * of_int q;
                         profit = (case manualProfitVal of
                                     Some (Num m) \<Rightarrow> m * of_int q
                                   | _ \<Rightarrow> autoProfit);
                         st1 = st\<lparr>sales := sales st @
                                 [\<lparr>s_date = ymd today d, s_buyer = byr, s_address = addr,
                                   s_contact = cont, s_item = name it, s_price = p, s_qty = q,
                                   s_total = total, s_profit = profit,
                                   s_profitIsManual = (manualProfitVal \<noteq> None)\<rparr>]\<rparr>;
                         current = qtyOr0 it monthKey;
                         it1 = setQty it monthKey (max 0 (current - q));
                         it2 = logQuantityChange it1 monthKey (ymd today d) (- q) ''sale''
                     in Inr (putItem st1 k it2))))))"

section \<open>Reports\<close>

record report_row =
  r_name :: string
  r_price :: rat
  r_qty :: int
  r_total :: rat

record monthly_report =
  mr_rows :: "report_row list"
  mr_grand :: rat
  mr_monthSales :: "sale list"
  mr_salesTotal :: rat
  mr_salesProfit :: rat
  mr_salesCount :: nat

text \<open>The body of the \<open>forEach\<close> over the items: it skips an item without stock in the
  month, otherwise adds its value to \<open>grand\<close> and pushes its row.\<close>

definition reportStep :: "string \<Rightarrow> report_row list \<times> rat \<Rightarrow> item \<Rightarrow> report_row list \<times> rat" where
  "reportStep month acc it =
     (let qty = qtyOr0 it month in
      if qty \<le> 0 then acc
      else
        (let price = getLatestPrice it; total = price * of_int qty
         in (fst acc @ [\<lparr>r_name = name it, r_price = price, r_qty = qty, r_total = total\<rparr>],
             snd acc + total)))"

definition monthSalesOf :: "string \<Rightarrow> string \<Rightarrow> document \<Rightarrow> sale list" where
  "monthSalesOf today month st = filter (\<lambda>s. ym today (s_date s) = month) (sales st)"

text \<open>\<open>renderMonthlyReport\<close>: the report that is rendered, and the document with the
  snapshot of the month overwritten.  \<open>now\<close> is \<open>new Date().toISOString()\<close>.\<close>

definition renderMonthlyReport ::
  "string \<Rightarrow> string \<Rightarrow> string \<Rightarrow> document \<Rightarrow> monthly_report \<times> document" where
  "renderMonthlyReport now today month st =
     (let acc = foldl (reportStep month) ([], 0) (map snd (items st));
          rows = sort_key r_name (fst acc);
          grand = snd acc;
          monthSales = monthSalesOf today month st;
          salesTotal = foldl (\<lambda>sum s. sum + s_total s) 0 monthSales;
          salesProfit = foldl (\<lambda>sum s. sum + s_profit s) 0 monthSales;
          salesCount = length monthSales
      in (\<lparr>mr_rows = rows, mr_grand = grand, mr_monthSales = monthSales,
            mr_salesTotal = salesTotal, mr_salesProfit = salesProfit,
            mr_salesCount = salesCount\<rparr>,
          st\<lparr>monthlySnapshots := AList.update month
                \<lparr>generatedAt = now, snap_itemsTotal = grand, snap_salesTotal = salesTotal,
                  snap_salesProfit = salesProfit, snap_salesCount = salesCount\<rparr>
                (monthlySnapshots st)\<rparr>))"

record yearly_row =
  yr_month :: string
  yr_itemsTotal :: rat
  yr_salesTotal :: rat
  yr_salesProfit :: rat
  yr_combined :: rat

record yearly_totals =
  yt_items :: rat
  yt_sales :: rat
  yt_profit :: rat
  yt_combined :: rat

text \<open>Decimal digits of a number, as the template literal prints them.\<close>

fun digits :: "nat \<Rightarrow> string" where
  "digits n =
     (if n < 10 then [''0123456789'' ! n] else digits (n div 10) @ [''0123456789'' ! (n mod 10)])"

declare digits.simps [simp del]

definition decimal :: "int \<Rightarrow> string" where
  "decimal i = (if i < 0 then CHR ''-'' # digits (nat (- i)) else digits (nat i))"

definition padStart2 :: "string \<Rightarrow> string" where
  "padStart2 s = replicate (2 - length s) CHR ''0'' @ s"

definition yearMonths :: "int \<Rightarrow> string list" where
  "yearMonths year = map (\<lambda>i. decimal year @ ''-'' @ padStart2 (decimal (int i + 1))) [0..<12]"

text \<open>One row of the yearly table: from the snapshot of the month when there is one,
  computed from the ledgers otherwise.\<close>

definition yearlyRow :: "string \<Rightarrow> document \<Rightarrow> string \<Rightarrow> yearly_row" where
  "yearlyRow today st m =
     (case map_of (monthlySnapshots st) m of
        Some snap \<Rightarrow>
          \<lparr>yr_month = m, yr_itemsTotal = snap_itemsTotal snap,
            yr_salesTotal = snap_salesTotal snap, yr_salesProfit = snap_salesProfit snap,
            yr_combined = snap_itemsTotal snap + snap_salesTotal snap\<rparr>
      | None \<Rightarrow>
          (let itemsTotal = foldl (\<lambda>acc it. let qty = qtyOr0 it m in
                                     if qty > 0 then acc + of_int qty * getLatestPrice it else acc)
                              0 (map snd (items st));
               salesRows = filter (\<lambda>s. ym today (s_date s) = m) (sales st);
               salesTotal = foldl (\<lambda>s r. s + s_total r) 0 salesRows;
               salesProfit = foldl (\<lambda>s r. s + s_profit r) 0 salesRows
           in \<lparr>yr_month = m, yr_itemsTotal = itemsTotal, yr_salesTotal = salesTotal,
                yr_salesProfit = salesProfit, yr_combined = itemsTotal + salesTotal\<rparr>))"

definition renderYearly :: "string \<Rightarrow> int \<Rightarrow> document \<Rightarrow> yearly_row list \<times> yearly_totals" where
  "renderYearly today year st =
     (let months = yearMonths year;
          rows = map (yearlyRow today st) months;
          totals = foldl (\<lambda>acc r.
                     \<lparr>yt_items = yt_items acc + yr_itemsTotal r,
                       yt_sales = yt_sales acc + yr_salesTotal r,
                       yt_profit = yt_profit acc + yr_salesProfit r,
                       yt_combined = yt_combined acc + yr_combined r\<rparr>)
                   \<lparr>yt_items = 0, yt_sales = 0, yt_profit = 0, yt_combined = 0\<rparr> rows
      in (rows, totals))"

section \<open>Sequences of user actions\<close>

datatype action =
    UpsertItem string "rat parsed" "int parsed" string
  | UpdatePrice string "rat parsed" string
  | InlinePrice string "rat parsed"
  | SetQuantity string "int parsed" string
  | AdjustQuantity string bool string
  | DeleteItems "string list" bool
  | RecordSale string string string string string "rat parsed" "int parsed" "rat parsed option"
  | MonthlyReport string string

text \<open>The document in the store after one action on the day \<open>today\<close>.\<close>

fun perform :: "string \<Rightarrow> action \<Rightarrow> document \<Rightarrow> document" where
  "perform today (UpsertItem nm price qty d) st = persisted st (upsertItem today nm price qty d st)"
| "perform today (UpdatePrice nm price d) st = persisted st (updatePrice today nm price d st)"
| "perform today (InlinePrice k input) st = persisted st (inlinePrice today k input st)"
| "perform today (SetQuantity k input month) st = persisted st (setQuantity today k input month st)"
| "perform today (AdjustQuantity k dec month) st = persisted st (adjustQuantity today k dec month st)"
| "perform today (DeleteItems keys confirmed) st = persisted st (deleteItems keys confirmed st)"
| "perform today (RecordSale d b a c i price qty manual) st =
     persisted st (recordSale today d b a c i price qty manual st)"
| "perform today (MonthlyReport now month) st = snd (renderMonthlyReport now today month st)"

fun run :: "(string \<times> action) list \<Rightarrow> document \<Rightarrow> document" where
  "run [] st = st"
| "run ((today, a) # rest) st = run rest (perform today a st)"

section \<open>Notions used to state the properties\<close>

text \<open>No stored quantity is negative.\<close>

definition itemNonneg :: "item \<Rightarrow> bool" where
  "itemNonneg it = list_all (\<lambda>e. 0 \<le> snd e) (quantities it)"

definition stockNonneg :: "document \<Rightarrow> bool" where
  "stockNonneg st = list_all (\<lambda>e. itemNonneg (snd e)) (items st)"

text \<open>The price-history entry that the specification names: among the entries whose date
  is maximal, the one inserted last; none for an empty history.\<close>

definition latestByDate :: "price_entry list \<Rightarrow> price_entry option" where
  "latestByDate hist =
     (case rev (filter (\<lambda>e. list_all (\<lambda>e'. ph_date e' \<le> ph_date e) hist) hist) of
        [] \<Rightarrow> None
      | e # earlier \<Rightarrow> Some e)"

text \<open>The price history stored under a key, if an item is stored there.\<close>

definition historyOf :: "document \<Rightarrow> string \<Rightarrow> price_entry list option" where
  "historyOf st k = map_option priceHistory (map_of (items st) k)"

text \<open>The row of the monthly report that an item with stock gives.\<close>

definition itemRow :: "string \<Rightarrow> item \<Rightarrow> report_row" where
  "itemRow month it =
     \<lparr>r_name = name it, r_price = getLatestPrice it, r_qty = qtyOr0 it month,
      r_total = getLatestPrice it * of_int (qtyOr0 it month)\<rparr>"

text \<open>The yearly totals as the specification words them: the sums, over the twelve
  months of the year, of the totals of the monthly reports of the same document.\<close>

definition monthlySum :: "string \<Rightarrow> int \<Rightarrow> document \<Rightarrow> yearly_totals" where
  "monthlySum today year st =
     (let reports = map (\<lambda>m. fst (renderMonthlyReport [] today m st)) (yearMonths year)
      in \<lparr>yt_items = sum_list (map mr_grand reports),
          yt_sales = sum_list (map mr_salesTotal reports),
          yt_profit = sum_list (map mr_salesProfit reports),
          yt_combined = sum_list (map (\<lambda>r. mr_grand r + mr_salesTotal r) reports)\<rparr>)"

text \<open>The snapshot of a month, when there is one, holds the totals that the monthly report
  computes from the ledgers as they are now.\<close>

definition snapshotFresh :: "string \<Rightarrow> document \<Rightarrow> string \<Rightarrow> bool" where
  "snapshotFresh today st m =
     (case map_of (monthlySnapshots st) m of
        None \<Rightarrow> True
      | Some snap \<Rightarrow>
          snap_itemsTotal snap = mr_grand (fst (renderMonthlyReport [] today m st)) \<and>
          snap_salesTotal snap = mr_salesTotal (fst (renderMonthlyReport [] today m st)) \<and>
          snap_salesProfit snap = mr_salesProfit (fst (renderMonthlyReport [] today m st)))"

section \<open>Example documents\<close>

text \<open>The ledger after "Rice" was added at 10.00 with 50 pieces on 2024-01-05.\<close>

definition riceItem :: item where
  "riceItem =
     \<lparr>name = ''Rice'',
      priceHistory = [\<lparr>ph_price = 10, ph_date = ''2024-01-05''\<rparr>],
      quantities = [(''2024-01'', 50)],
      qtyHistory = [\<lparr>qh_month = ''2024-01'', qh_date = ''2024-01-05'', qh_delta = 50,
                     qh_source = ''addForm''\<rparr>]\<rparr>"

definition riceDoc :: document where
  "riceDoc = \<lparr>items = [(''rice'', riceItem)], sales = [], monthlySnapshots = []\<rparr>"

text \<open>The same ledger after five pieces were sold at 12.00 on 2024-01-10.\<close>

definition riceSoldDoc :: document where
  "riceSoldDoc =
     \<lparr>items = [(''rice'',
        riceItem\<lparr>quantities := [(''2024-01'', 45)],
                 qtyHistory := qtyHistory riceItem @
                   [\<lparr>qh_month = ''2024-01'', qh_date = ''2024-01-10'', qh_delta = - 5,
                     qh_source = ''sale''\<rparr>]\<rparr>)],
      sales = [\<lparr>s_date = ''2024-01-10'', s_buyer = ''Bob'', s_address = ''Mill Lane 1'',
                s_contact = ''555-0101'', s_item = ''Rice'', s_price = 12, s_qty = 5,
                s_total = 60, s_profit = 10, s_profitIsManual = False\<rparr>],
      monthlySnapshots = []\<rparr>"

text \<open>The first ledger after sixty pieces, ten more than the stock, were sold at 12.00 on
  2024-01-10.\<close>

definition riceOversoldDoc :: document where
  "riceOversoldDoc =
     \<lparr>items = [(''rice'',
        riceItem\<lparr>quantities := [(''2024-01'', 0)],
                 qtyHistory := qtyHistory riceItem @
                   [\<lparr>qh_month = ''2024-01'', qh_date = ''2024-01-10'', qh_delta = - 60,
                     qh_source = ''sale''\<rparr>]\<rparr>)],
      sales = [\<lparr>s_date = ''2024-01-10'', s_buyer = ''Bob'', s_address = ''Mill Lane 1'',
                s_contact = ''555-0101'', s_item = ''Rice'', s_price = 12, s_qty = 60,
                s_total = 720, s_profit = 120, s_profitIsManual = False\<rparr>],
      monthlySnapshots = []\<rparr>"

text \<open>The first ledger after "Rice" was added twice more at 12.00, both times dated
  2023-12-01, before the price on record.\<close>

definition riceBackdated1 :: document where
  "riceBackdated1 =
     run [(''2024-01-06'', UpsertItem ''Rice'' (Num 12) (Num 1) ''2023-12-01'')] riceDoc"

definition riceBackdated2 :: document where
  "riceBackdated2 =
     run [(''2024-01-06'', UpsertItem ''Rice'' (Num 12) (Num 1) ''2023-12-01'')] riceBackdated1"

text \<open>An item whose two latest prices carry the same date.\<close>

definition tiedItem :: item where
  "tiedItem =
     \<lparr>name = ''Tea'',
      priceHistory = [\<lparr>ph_price = 7, ph_date = ''2024-02-01''\<rparr>,
                      \<lparr>ph_price = 8, ph_date = ''2024-02-01''\<rparr>,
                      \<lparr>ph_price = 9, ph_date = ''2024-01-15''\<rparr>],
      quantities = [],
      qtyHistory = []\<rparr>"

text \<open>Rice is added, the report of January is opened, then five pieces are sold: the
  snapshot of January is older than the sale.\<close>

definition staleDoc :: document where
  "staleDoc =
     run [(''2024-01-05'', UpsertItem ''Rice'' (Num 10) (Num 50) ''2024-01-05''),
          (''2024-01-06'', MonthlyReport ''2024-01-06T09:00:00.000Z'' ''2024-01''),
          (''2024-01-10'', RecordSale ''2024-01-10'' ''Bob'' ''Mill Lane 1'' ''555-0101'' ''rice''
                             (Num 12) (Num 5) None)]
       emptyState"

text \<open>The same, with the report of January opened once more after the sale.\<close>

definition freshDoc :: document where
  "freshDoc = run [(''2024-01-11'', MonthlyReport ''2024-01-11T09:00:00.000Z'' ''2024-01'')] staleDoc"

section \<open>Basic facts about the helpers\<close>

lemma map_of_putItem:
  "map_of (items (putItem st k it)) k' = (if k' = k then Some it else map_of (items st) k')"
  by (simp add: putItem_def update_conv')

lemma sales_putItem: "sales (putItem st k it) = sales st"
  by (simp add: putItem_def)

lemma snapshots_putItem: "monthlySnapshots (putItem st k it) = monthlySnapshots st"
  by (simp add: putItem_def)

lemma name_logQuantityChange: "name (logQuantityChange it m d delta src) = name it"
  by (simp add: logQuantityChange_def)

lemma priceHistory_logQuantityChange:
  "priceHistory (logQuantityChange it m d delta src) = priceHistory it"
  by (simp add: logQuantityChange_def)

lemma quantities_logQuantityChange:
  "quantities (logQuantityChange it m d delta src) = quantities it"
  by (simp add: logQuantityChange_def)

lemma qtyOr0_setQty: "qtyOr0 (setQty it m q) m' = (if m' = m then q else qtyOr0 it m')"
  by (simp add: qtyOr0_def setQty_def update_conv')

lemma qtyOr0_logQuantityChange: "qtyOr0 (logQuantityChange it m d delta src) m' = qtyOr0 it m'"
  by (simp add: qtyOr0_def quantities_logQuantityChange)

text \<open>Trimming twice is trimming once, so the key of a name does not depend on the
  blanks around it.\<close>

lemma dropWhile_idem_hd: "xs = [] \<or> \<not> P (hd xs) \<Longrightarrow> dropWhile P xs = xs"
  by (cases xs) auto

lemma hd_dropWhile_not: "dropWhile P xs = [] \<or> \<not> P (hd (dropWhile P xs))"
  by (metis hd_dropWhile)

lemma trim_trim: "trim (trim s) = trim s"
proof -
  define t where "t = dropWhile isSpace s"
  define u where "u = dropWhile isSpace (rev t)"
  have tr: "trim s = rev u" by (simp add: trim_def t_def u_def)
  have u_hd: "u = [] \<or> \<not> isSpace (hd u)" unfolding u_def by (rule hd_dropWhile_not)
  have t_hd: "t = [] \<or> \<not> isSpace (hd t)" unfolding t_def by (rule hd_dropWhile_not)
  obtain w where w: "rev t = w @ u"
    unfolding u_def by (metis takeWhile_dropWhile_id)
  have "rev u = [] \<or> \<not> isSpace (hd (rev u))"
  proof (cases "u = []")
    case True then show ?thesis by simp
  next
    case False
    from w have "t = rev u @ rev w" by (metis rev_append rev_rev_ident)
    then have "hd t = hd (rev u)" using False by simp
    moreover have "t \<noteq> []" using w False by auto
    ultimately show ?thesis using t_hd by simp
  qed
  then have a: "dropWhile isSpace (rev u) = rev u" by (rule dropWhile_idem_hd)
  have b: "dropWhile isSpace u = u" using u_hd by (rule dropWhile_idem_hd)
  have "trim (rev u) = rev u" unfolding trim_def by (simp add: a b)
  then show ?thesis by (simp only: tr)
qed

lemma normalizeName_trim: "normalizeName (trim s) = normalizeName s"
  by (simp add: normalizeName_def trim_trim)

section \<open>The sales are append-only\<close>

lemma sales_upsertItem: "sales (persisted st (upsertItem today nm price qty d st)) = sales st"
  by (simp add: upsertItem_def persisted_def Let_def sales_putItem
        split: parsed.splits option.splits)

lemma sales_updatePrice: "sales (persisted st (updatePrice today nm price d st)) = sales st"
  by (simp add: updatePrice_def persisted_def Let_def sales_putItem
        split: parsed.splits option.splits)

lemma sales_inlinePrice: "sales (persisted st (inlinePrice today k input st)) = sales st"
  by (simp add: inlinePrice_def persisted_def Let_def sales_putItem
        split: parsed.splits option.splits)

lemma sales_setQuantity: "sales (persisted st (setQuantity today k input m st)) = sales st"
  by (simp add: setQuantity_def persisted_def Let_def sales_putItem
        split: parsed.splits option.splits)

lemma sales_adjustQuantity: "sales (persisted st (adjustQuantity today k dec m st)) = sales st"
  by (simp add: adjustQuantity_def persisted_def Let_def sales_putItem
        split: parsed.splits option.splits)

lemma sales_deleteItems: "sales (persisted st (deleteItems keys confirmed st)) = sales st"
  by (simp add: deleteItems_def persisted_def)

lemma sales_renderMonthlyReport: "sales (snd (renderMonthlyReport now today m st)) = sales st"
  by (simp add: renderMonthlyReport_def Let_def)

lemma items_renderMonthlyReport: "items (snd (renderMonthlyReport now today m st)) = items st"
  by (simp add: renderMonthlyReport_def Let_def)

lemma sales_recordSale:
  "\<exists>ss. sales (persisted st (recordSale today d b a c i price qty manual st)) = sales st @ ss"
  by (simp add: recordSale_def persisted_def Let_def sales_putItem
        split: parsed.splits option.splits)

lemma sales_perform: "\<exists>ss. sales (perform today a st) = sales st @ ss"
  by (cases a)
     (simp_all add: sales_upsertItem sales_updatePrice sales_inlinePrice sales_setQuantity
        sales_adjustQuantity sales_deleteItems sales_renderMonthlyReport sales_recordSale)

lemma sales_run: "\<exists>ss. sales (run evs st) = sales st @ ss"
proof (induction evs arbitrary: st)
  case Nil
  then show ?case by simp
next
  case (Cons ev evs)
  obtain today a where ev: "ev = (today, a)" by (cases ev)
  from sales_perform obtain s1 where "sales (perform today a st) = sales st @ s1" by blast
  moreover from Cons.IH obtain s2 where
    "sales (run evs (perform today a st)) = sales (perform today a st) @ s2" by blast
  ultimately show ?case using ev by simp
qed

text \<open>What a successful sale stores.\<close>

lemma recordSale_Inr:
  assumes "recordSale today d b a c i price qty manual st = Inr st'"
  obtains p q it where "price = Num p" "qty = Num q" "0 < q" "d \<noteq> []"
    "map_of (items st) (normalizeName (trim i)) = Some it"
    "st' = putItem
       (st\<lparr>sales := sales st @
          [\<lparr>s_date = ymd today d, s_buyer = trim b, s_address = trim a, s_contact = trim c,
            s_item = name it, s_price = p, s_qty = q, s_total = p * of_int q,
            s_profit = (case manual of Some (Num mp) \<Rightarrow> mp * of_int q
                        | _ \<Rightarrow> (p - getLatestPrice it) * of_int q),
            s_profitIsManual = (manual \<noteq> None)\<rparr>]\<rparr>)
       (normalizeName (trim i))
       (logQuantityChange
          (setQty it (ym today d) (max 0 (qtyOr0 it (ym today d) - q)))
          (ym today d) (ymd today d) (- q) ''sale'')"
  using assms
  by (auto simp: recordSale_def Let_def split: parsed.splits option.splits if_splits)

lemma riceDoc_reachable:
  "riceDoc = run [(''2024-01-05'', UpsertItem ''Rice'' (Num 10) (Num 50) ''2024-01-05'')] emptyState"
  by code_simp

lemma riceDoc_key: "normalizeName (trim ''rice'') = ''rice''"
  by code_simp

lemma riceItem_price: "getLatestPrice riceItem = 10"
  by code_simp

section \<open>The profit of a sale\<close>

text \<open>
  Claim C1.  When \<open>recordSale\<close> succeeds it appends one sale.  Its profit is
  \<open>(price - costPerUnit) * qty\<close> when no manual profit was entered and
  \<open>manualProfitPerUnit * qty\<close> when one was, where \<open>costPerUnit\<close> is
  \<open>getLatestPrice\<close> of the item in the document the sale was recorded on.  Whatever is
  done afterwards (price updates and upserts among all other actions), that sale stays in
  the sales as it was stored, at the same position.
\<close>

theorem recordSale_profit_snapshot:
  assumes "recordSale today d b a c i price qty manual st = Inr st'"
  shows "\<exists>p q it s.
           price = Num p \<and> qty = Num q \<and>
           map_of (items st) (normalizeName (trim i)) = Some it \<and>
           sales st' = sales st @ [s] \<and>
           (manual = None \<longrightarrow> s_profit s = (p - getLatestPrice it) * of_int q) \<and>
           (\<forall>mp. manual = Some (Num mp) \<longrightarrow> s_profit s = mp * of_int q) \<and>
           (\<forall>evs. \<exists>later. sales (run evs st') = sales st @ [s] @ later)"
proof -
  from assms obtain p q it where h: "price = Num p" "qty = Num q"
    "map_of (items st) (normalizeName (trim i)) = Some it"
    and st': "st' = putItem
       (st\<lparr>sales := sales st @
          [\<lparr>s_date = ymd today d, s_buyer = trim b, s_address = trim a, s_contact = trim c,
            s_item = name it, s_price = p, s_qty = q, s_total = p * of_int q,
            s_profit = (case manual of Some (Num mp) \<Rightarrow> mp * of_int q
                        | _ \<Rightarrow> (p - getLatestPrice it) * of_int q),
            s_profitIsManual = (manual \<noteq> None)\<rparr>]\<rparr>)
       (normalizeName (trim i))
       (logQuantityChange
          (setQty it (ym today d) (max 0 (qtyOr0 it (ym today d) - q)))
          (ym today d) (ymd today d) (- q) ''sale'')"
    by (rule recordSale_Inr)
  define s where "s =
     \<lparr>s_date = ymd today d, s_buyer = trim b, s_address = trim a, s_contact = trim c,
      s_item = name it, s_price = p, s_qty = q, s_total = p * of_int q,
      s_profit = (case manual of Some (Num mp) \<Rightarrow> mp * of_int q
                  | _ \<Rightarrow> (p - getLatestPrice it) * of_int q),
      s_profitIsManual = (manual \<noteq> None)\<rparr>"
  have stored: "sales st' = sales st @ [s]"
    by (simp add: st' s_def sales_putItem)
  have later: "\<exists>later. sales (run evs st') = sales st @ [s] @ later" for evs
    using sales_run [of evs st'] stored by simp
  have "manual = None \<longrightarrow> s_profit s = (p - getLatestPrice it) * of_int q"
    by (simp add: s_def)
  moreover have "\<forall>mp. manual = Some (Num mp) \<longrightarrow> s_profit s = mp * of_int q"
    by (simp add: s_def)
  ultimately show ?thesis using h stored later by blast
qed

theorem recordSale_profit_snapshot_witness:
  "recordSale ''2024-01-10'' ''2024-01-10'' ''Bob'' ''Mill Lane 1'' ''555-0101'' ''rice''
     (Num 12) (Num 5) None riceDoc = Inr riceSoldDoc \<and>
   (\<exists>s. sales riceSoldDoc = [s] \<and> s_profit s = (12 - getLatestPrice riceItem) * 5 \<and>
        s_profit s = 10)"
proof -
  have h:
    "recordSale ''2024-01-10'' ''2024-01-10'' ''Bob'' ''Mill Lane 1'' ''555-0101'' ''rice''
       (Num 12) (Num 5) None riceDoc = Inr riceSoldDoc"
    by code_simp
  from recordSale_profit_snapshot [OF h] obtain p q it s where
    "Num 12 = Num p" "Num 5 = Num q"
    "map_of (items riceDoc) (normalizeName (trim ''rice'')) = Some it"
    "sales riceSoldDoc = sales riceDoc @ [s]"
    "s_profit s = (p - getLatestPrice it) * of_int q"
    by auto
  then have "sales riceSoldDoc = [s]" "s_profit s = (12 - getLatestPrice riceItem) * 5"
    by (simp_all add: riceDoc_key riceDoc_def)
  with h show ?thesis by (auto simp: riceItem_price)
qed

text \<open>A profit field that does not parse (\<open>NaN\<close>) is no override: the guard
  \<open>!isNaN(manualProfitVal)\<close> sends it to the automatic profit.\<close>

lemma recordSale_profit_unparsable:
  assumes "recordSale today d b a c i (Num p) (Num q) (Some NaN) st = Inr st'"
    and "map_of (items st) (normalizeName (trim i)) = Some it"
  shows "s_profit (last (sales st')) = (p - getLatestPrice it) * of_int q"
  using assms
  by (auto simp: recordSale_def Let_def sales_putItem split: if_splits)

section \<open>The current price of an item\<close>

lemma last_insort_key:
  "sorted (map f ys) \<Longrightarrow>
   last (insort_key f x ys) = (if ys = [] \<or> f (last ys) < f x then x else last ys)"
proof (induction ys)
  case Nil
  then show ?case by simp
next
  case (Cons y ys)
  then show ?case
    by (cases ys) (auto simp: not_less)
qed

text \<open>The last element of the stably sorted list is the element of greatest key that
  stands last in the list.\<close>

lemma last_sort_key_index:
  "xs \<noteq> [] \<Longrightarrow>
   \<exists>i<length xs. last (sort_key f xs) = xs ! i \<and>
     (\<forall>j<length xs. f (xs ! j) \<le> f (xs ! i)) \<and>
     (\<forall>j<length xs. i < j \<longrightarrow> f (xs ! j) < f (xs ! i))"
proof (induction xs)
  case Nil
  then show ?case by simp
next
  case (Cons x xs)
  show ?case
  proof (cases "xs = []")
    case True
    then show ?thesis by simp
  next
    case False
    from Cons.IH [OF False] obtain i where i: "i < length xs"
      and li: "last (sort_key f xs) = xs ! i"
      and mx: "\<forall>j<length xs. f (xs ! j) \<le> f (xs ! i)"
      and tie: "\<forall>j<length xs. i < j \<longrightarrow> f (xs ! j) < f (xs ! i)"
      by blast
    have ne: "sort_key f xs \<noteq> []" using False by (metis length_0_conv length_sort)
    have lst: "last (sort_key f (x # xs)) = (if f (xs ! i) < f x then x else xs ! i)"
      using last_insort_key [of f "sort_key f xs" x] ne li by simp
    show ?thesis
    proof (cases "f (xs ! i) < f x")
      case True
      have "\<forall>j<length (x # xs). f ((x # xs) ! j) \<le> f x"
      proof (intro allI impI)
        fix j assume "j < length (x # xs)"
        then show "f ((x # xs) ! j) \<le> f x"
          using mx True by (cases j) (auto intro: order.trans [OF _ less_imp_le])
      qed
      moreover have "\<forall>j<length (x # xs). 0 < j \<longrightarrow> f ((x # xs) ! j) < f x"
      proof (intro allI impI)
        fix j assume "j < length (x # xs)" "0 < j"
        then show "f ((x # xs) ! j) < f x"
          using mx True by (cases j) (auto intro: le_less_trans)
      qed
      ultimately show ?thesis using lst True
        by (intro exI [of _ 0]) simp
    next
      case nlt: False
      have a: "\<forall>j<length (x # xs). f ((x # xs) ! j) \<le> f (xs ! i)"
      proof (intro allI impI)
        fix j assume "j < length (x # xs)"
        then show "f ((x # xs) ! j) \<le> f (xs ! i)"
          using mx nlt by (cases j) (auto simp: not_less)
      qed
      have b: "\<forall>j<length (x # xs). Suc i < j \<longrightarrow> f ((x # xs) ! j) < f (xs ! i)"
      proof (intro allI impI)
        fix j assume "j < length (x # xs)" "Suc i < j"
        then show "f ((x # xs) ! j) < f (xs ! i)"
          using tie by (cases j) auto
      qed
      show ?thesis using lst nlt a b i
        by (intro exI [of _ "Suc i"]) simp
    qed
  qed
qed

lemma getLatestPrice_index:
  assumes "priceHistory it \<noteq> []"
  shows "\<exists>i<length (priceHistory it).
        getLatestPrice it = ph_price (priceHistory it ! i) \<and>
        (\<forall>j<length (priceHistory it).
            ph_date (priceHistory it ! j) \<le> ph_date (priceHistory it ! i)) \<and>
        (\<forall>j<length (priceHistory it). i < j \<longrightarrow>
            ph_date (priceHistory it ! j) < ph_date (priceHistory it ! i))"
proof -
  from last_sort_key_index [OF assms, of ph_date] obtain i where
    "i < length (priceHistory it)"
    "last (sort_key ph_date (priceHistory it)) = priceHistory it ! i"
    "\<forall>j<length (priceHistory it). ph_date (priceHistory it ! j) \<le> ph_date (priceHistory it ! i)"
    "\<forall>j<length (priceHistory it). i < j \<longrightarrow>
        ph_date (priceHistory it ! j) < ph_date (priceHistory it ! i)"
    by blast
  then show ?thesis using assms
    by (auto simp: getLatestPrice_def Let_def)
qed

lemma filter_upto_last:
  assumes "i < length xs" and "P (xs ! i)" and "\<forall>j<length xs. i < j \<longrightarrow> \<not> P (xs ! j)"
  shows "filter P xs = filter P (take i xs) @ [xs ! i]"
proof -
  have "\<not> P y" if "y \<in> set (drop (Suc i) xs)" for y
  proof -
    from that obtain n where n: "n < length (drop (Suc i) xs)" "y = drop (Suc i) xs ! n"
      by (auto simp: in_set_conv_nth)
    then have "y = xs ! (Suc i + n)" "Suc i + n < length xs" by auto
    with assms(3) show ?thesis by auto
  qed
  then have "filter P (drop (Suc i) xs) = []" by (simp add: filter_empty_conv)
  moreover have "xs = take i xs @ xs ! i # drop (Suc i) xs"
    using assms(1) by (rule id_take_nth_drop)
  ultimately show ?thesis using assms(2)
    by (metis append_Nil2 filter.simps(2) filter_append)
qed

lemma latestByDate_index:
  assumes "i < length xs"
    and "\<forall>j<length xs. ph_date (xs ! j) \<le> ph_date (xs ! i)"
    and "\<forall>j<length xs. i < j \<longrightarrow> ph_date (xs ! j) < ph_date (xs ! i)"
  shows "latestByDate xs = Some (xs ! i)"
proof -
  let ?P = "\<lambda>e. list_all (\<lambda>e'. ph_date e' \<le> ph_date e) xs"
  have "?P (xs ! i)" using assms(2) by (auto simp: list_all_iff in_set_conv_nth)
  moreover have "\<forall>j<length xs. i < j \<longrightarrow> \<not> ?P (xs ! j)"
  proof (intro allI impI)
    fix j assume j: "j < length xs" "i < j"
    with assms(3) have "ph_date (xs ! j) < ph_date (xs ! i)" by simp
    then have "\<not> ph_date (xs ! i) \<le> ph_date (xs ! j)" by simp
    moreover have "xs ! i \<in> set xs" using assms(1) by simp
    ultimately show "\<not> ?P (xs ! j)" by (auto simp: list_all_iff)
  qed
  ultimately have "filter ?P xs = filter ?P (take i xs) @ [xs ! i]"
    using assms(1) by (intro filter_upto_last) auto
  then show ?thesis by (simp add: latestByDate_def)
qed

text \<open>
  Claim C3.  \<open>getLatestPrice\<close> returns the price of the price-history entry with the maximum
  date, the later-inserted one when several entries share that date, and 0 for an item
  without price history (the only case without such an entry).
\<close>

theorem getLatestPrice_max_date:
  "getLatestPrice it = (case latestByDate (priceHistory it) of None \<Rightarrow> 0 | Some e \<Rightarrow> ph_price e) \<and>
   (latestByDate (priceHistory it) = None) = (priceHistory it = [])"
proof (cases "priceHistory it = []")
  case True
  then show ?thesis by (simp add: getLatestPrice_def latestByDate_def)
next
  case False
  from getLatestPrice_index [OF False] obtain i where i: "i < length (priceHistory it)"
    and p: "getLatestPrice it = ph_price (priceHistory it ! i)"
    and m: "\<forall>j<length (priceHistory it).
              ph_date (priceHistory it ! j) \<le> ph_date (priceHistory it ! i)"
    and t: "\<forall>j<length (priceHistory it). i < j \<longrightarrow>
              ph_date (priceHistory it ! j) < ph_date (priceHistory it ! i)"
    by blast
  from latestByDate_index [OF i m t] p False show ?thesis by simp
qed

theorem getLatestPrice_max_date_witness:
  "getLatestPrice tiedItem = 8 \<and>
   latestByDate (priceHistory tiedItem) = Some \<lparr>ph_price = 8, ph_date = ''2024-02-01''\<rparr>"
proof -
  have "latestByDate (priceHistory tiedItem) = Some \<lparr>ph_price = 8, ph_date = ''2024-02-01''\<rparr>"
    by code_simp
  with getLatestPrice_max_date [of tiedItem] show ?thesis by simp
qed

section \<open>The monthly report is idempotent\<close>

text \<open>
  Claim C7.  Two monthly reports of the same month with nothing done in between show the
  same totals (value of the stock, revenue, profit and number of sales; indeed the same
  report), and the snapshot that the second one stores is the snapshot of the first one
  with a new \<open>generatedAt\<close>.  The ledgers are left as they were.
\<close>

theorem monthlyReport_idempotent:
  "fst (renderMonthlyReport now2 today m (snd (renderMonthlyReport now1 today m st)))
     = fst (renderMonthlyReport now1 today m st) \<and>
   (\<exists>snap. map_of (monthlySnapshots (snd (renderMonthlyReport now1 today m st))) m = Some snap \<and>
      map_of (monthlySnapshots
          (snd (renderMonthlyReport now2 today m (snd (renderMonthlyReport now1 today m st))))) m
        = Some (snap\<lparr>generatedAt := now2\<rparr>) \<and>
      snap_itemsTotal snap = mr_grand (fst (renderMonthlyReport now1 today m st)) \<and>
      snap_salesTotal snap = mr_salesTotal (fst (renderMonthlyReport now1 today m st)) \<and>
      snap_salesProfit snap = mr_salesProfit (fst (renderMonthlyReport now1 today m st)) \<and>
      snap_salesCount snap = mr_salesCount (fst (renderMonthlyReport now1 today m st))) \<and>
   items (snd (renderMonthlyReport now1 today m st)) = items st \<and>
   sales (snd (renderMonthlyReport now1 today m st)) = sales st"
  by (simp add: renderMonthlyReport_def Let_def monthSalesOf_def update_conv')

text \<open>The day enters the report only through a sale without a date, which the sale form
  never stores; so the report does not depend on the day it is opened.\<close>

lemma ym_dated: "d \<noteq> [] \<Longrightarrow> ym today d = ym today' d"
  by (simp add: ym_def ymd_def)

lemma monthlyReport_any_day:
  assumes "list_all (\<lambda>s. s_date s \<noteq> []) (sales st)"
  shows "fst (renderMonthlyReport now2 today2 m (snd (renderMonthlyReport now1 today1 m st)))
           = fst (renderMonthlyReport now1 today1 m st)"
proof -
  have "filter (\<lambda>s. ym today2 (s_date s) = m) (sales st)
          = filter (\<lambda>s. ym today1 (s_date s) = m) (sales st)"
    using assms by (intro filter_cong) (auto simp: list_all_iff ym_dated [of _ today2 today1])
  then show ?thesis
    by (simp add: renderMonthlyReport_def Let_def monthSalesOf_def)
qed

section \<open>What the sale form rejects\<close>

text \<open>The guard of the sale form: the call reports a validation error and stores nothing
  whenever the date is empty, or the buyer, the address, the contact or the item name is
  empty after trimming, or the price is \<open>NaN\<close>, or the quantity is \<open>NaN\<close> or not
  positive.\<close>

lemma recordSale_rejects:
  assumes "d = [] \<or> trim b = [] \<or> trim a = [] \<or> trim c = [] \<or> trim i = [] \<or>
           price = NaN \<or> qty = NaN \<or> (\<exists>q. qty = Num q \<and> q \<le> 0)"
  shows "recordSale today d b a c i price qty manual st = Inl ValidationError \<and>
         persisted st (recordSale today d b a c i price qty manual st) = st"
proof -
  have "recordSale today d b a c i price qty manual st = Inl ValidationError"
    using assms by (auto simp: recordSale_def Let_def split: parsed.splits)
  then show ?thesis by (simp add: persisted_def)
qed

lemma recordSale_rejects_zero_qty:
  "recordSale ''2024-01-10'' ''2024-01-10'' ''Bob'' ''Mill Lane 1'' ''555-0101'' ''Rice''
      (Num 12) (Num 0) None riceDoc = Inl ValidationError \<and>
   persisted riceDoc
     (recordSale ''2024-01-10'' ''2024-01-10'' ''Bob'' ''Mill Lane 1'' ''555-0101'' ''Rice''
        (Num 12) (Num 0) None riceDoc) = riceDoc"
proof -
  have "\<exists>q. (Num 0 :: int parsed) = Num q \<and> q \<le> 0" by simp
  then show ?thesis
    by (intro recordSale_rejects) blast
qed

text \<open>The inline price field of the items table refuses a negative price and stores
  nothing.\<close>

lemma inlinePrice_rejects_negative:
  "p < 0 \<Longrightarrow> inlinePrice today k (Num p) st = Inl ValidationError"
  by (simp add: inlinePrice_def)

text \<open>
  Claim C8.  It holds for the empty fields, for a price that is \<open>NaN\<close> and for a quantity
  that is \<open>NaN\<close> or not positive, and fails for a negative price: the guard of the sale
  form tests \<open>isNaN(price)\<close> and not \<open>price < 0\<close>, which the inline price field tests.
  A sale of five pieces at -12.00 is not rejected; it is stored, with a total of -60.00, and
  takes five pieces off the stock.
\<close>

theorem recordSale_negative_price_accepted:
  "\<not> (0::rat) \<le> - 12 \<and>
   recordSale ''2024-01-10'' ''2024-01-10'' ''Bob'' ''Mill Lane 1'' ''555-0101'' ''Rice''
      (Num (- 12)) (Num 5) None riceDoc \<noteq> Inl ValidationError \<and>
   persisted riceDoc
     (recordSale ''2024-01-10'' ''2024-01-10'' ''Bob'' ''Mill Lane 1'' ''555-0101'' ''Rice''
        (Num (- 12)) (Num 5) None riceDoc) \<noteq> riceDoc \<and>
   map s_price (sales (persisted riceDoc
     (recordSale ''2024-01-10'' ''2024-01-10'' ''Bob'' ''Mill Lane 1'' ''555-0101'' ''Rice''
        (Num (- 12)) (Num 5) None riceDoc))) = [- 12] \<and>
   map s_total (sales (persisted riceDoc
     (recordSale ''2024-01-10'' ''2024-01-10'' ''Bob'' ''Mill Lane 1'' ''555-0101'' ''Rice''
        (Num (- 12)) (Num 5) None riceDoc))) = [- 60] \<and>
   map_option (\<lambda>it. qtyOr0 it ''2024-01'') (map_of (items (persisted riceDoc
     (recordSale ''2024-01-10'' ''2024-01-10'' ''Bob'' ''Mill Lane 1'' ''555-0101'' ''Rice''
        (Num (- 12)) (Num 5) None riceDoc))) ''rice'') = Some 45"
  by code_simp

section \<open>The display name of an item\<close>

text \<open>
  Claim C10.  When an item is stored under the key of a name (the name trimmed and
  lower-cased), an upsert with that name, in any casing and with any blanks around it,
  leaves the display name of the item as it was, whether the form is accepted or rejected.
\<close>

theorem upsertItem_keeps_name:
  assumes "map_of (items st) k = Some it" and "normalizeName rawName = k"
  shows "map_option name (map_of (items (persisted st (upsertItem today rawName price qty d st))) k)
           = Some (name it)"
  using assms
  by (auto simp: upsertItem_def persisted_def Let_def normalizeName_trim map_of_putItem
        name_logQuantityChange setQty_def pushPrice_def split: parsed.splits)

theorem upsertItem_keeps_name_witness:
  "map_of (items riceDoc) ''rice'' = Some riceItem \<and> normalizeName ''  RICE '' = ''rice'' \<and>
   map_option name (map_of (items (persisted riceDoc
       (upsertItem ''2024-03-01'' ''  RICE '' (Num 11) (Num 3) ''2024-03-01'' riceDoc))) ''rice'')
     = Some ''Rice''"
proof -
  have a: "map_of (items riceDoc) ''rice'' = Some riceItem" by (simp add: riceDoc_def)
  have b: "normalizeName ''  RICE '' = ''rice''" by code_simp
  have c: "name riceItem = ''Rice''" by (simp add: riceItem_def)
  from upsertItem_keeps_name [OF a b] a b c show ?thesis by simp
qed

section \<open>Stock is never negative\<close>

lemma list_all_update:
  "P (k, v) \<Longrightarrow> list_all P xs \<Longrightarrow> list_all P (AList.update k v xs)"
  by (induction xs) auto

lemma list_all_map_of:
  "list_all P xs \<Longrightarrow> map_of xs k = Some v \<Longrightarrow> P (k, v)"
  by (auto simp: list_all_iff dest: map_of_SomeD)

lemma itemNonneg_qtyOr0: "itemNonneg it \<Longrightarrow> 0 \<le> qtyOr0 it m"
  unfolding itemNonneg_def qtyOr0_def
  by (auto split: option.splits dest: list_all_map_of)

lemma itemNonneg_setQty: "0 \<le> q \<Longrightarrow> itemNonneg it \<Longrightarrow> itemNonneg (setQty it m q)"
  by (simp add: itemNonneg_def setQty_def list_all_update)

lemma itemNonneg_logQuantityChange:
  "itemNonneg (logQuantityChange it m d delta src) = itemNonneg it"
  by (simp add: itemNonneg_def quantities_logQuantityChange)

lemma qtyOr0_pushPrice: "qtyOr0 (pushPrice it p d) m = qtyOr0 it m"
  by (simp add: qtyOr0_def pushPrice_def)

lemma recordSale_items:
  assumes "recordSale today d b a c i price qty manual st = Inr st'"
  shows "\<exists>q it. qty = Num q \<and> 0 < q \<and>
           map_of (items st) (normalizeName (trim i)) = Some it \<and>
           items st' = AList.update (normalizeName (trim i))
             (logQuantityChange (setQty it (ym today d) (max 0 (qtyOr0 it (ym today d) - q)))
                (ym today d) (ymd today d) (- q) ''sale'')
             (items st)"
  using assms
  by (auto simp: recordSale_def Let_def putItem_def
        split: parsed.splits option.splits if_splits)

lemma itemNonneg_pushPrice: "itemNonneg (pushPrice it p d) = itemNonneg it"
  by (simp add: itemNonneg_def pushPrice_def)

lemma stockNonneg_lookup: "stockNonneg st \<Longrightarrow> map_of (items st) k = Some it \<Longrightarrow> itemNonneg it"
  unfolding stockNonneg_def by (drule (1) list_all_map_of) simp

lemma stockNonneg_putItem: "stockNonneg st \<Longrightarrow> itemNonneg it \<Longrightarrow> stockNonneg (putItem st k it)"
  by (simp add: stockNonneg_def putItem_def list_all_update)

lemma stockNonneg_sales_update: "stockNonneg (st\<lparr>sales := ss\<rparr>) = stockNonneg st"
  by (simp add: stockNonneg_def)

lemma stockNonneg_emptyState: "stockNonneg emptyState"
  by (simp add: stockNonneg_def emptyState_def)

lemma stockNonneg_upsertItem:
  assumes "stockNonneg st"
  shows "stockNonneg (persisted st (upsertItem today nm price qty d st))"
proof (cases "upsertItem today nm price qty d st")
  case (Inl e)
  then show ?thesis using assms by (simp add: persisted_def)
next
  case (Inr st')
  then obtain p q where q: "0 < q" "price = Num p" "qty = Num q"
    by (auto simp: upsertItem_def Let_def split: parsed.splits if_splits)
  show ?thesis
  proof (cases "map_of (items st) (normalizeName (trim nm))")
    case None
    then show ?thesis using assms q Inr
      by (auto simp: upsertItem_def persisted_def Let_def itemNonneg_def
            intro!: stockNonneg_putItem split: if_splits)
  next
    case (Some it)
    then have "itemNonneg it" using assms by (rule stockNonneg_lookup [rotated])
    then have "0 \<le> qtyOr0 it (ym today d)" by (rule itemNonneg_qtyOr0)
    then show ?thesis using assms q Inr Some \<open>itemNonneg it\<close>
      by (auto simp: upsertItem_def persisted_def Let_def itemNonneg_logQuantityChange
            itemNonneg_pushPrice qtyOr0_pushPrice
            intro!: stockNonneg_putItem itemNonneg_setQty split: if_splits)
  qed
qed

lemma stockNonneg_updatePrice:
  "stockNonneg st \<Longrightarrow> stockNonneg (persisted st (updatePrice today nm price d st))"
  by (auto simp: updatePrice_def persisted_def Let_def itemNonneg_pushPrice
        intro!: stockNonneg_putItem dest: stockNonneg_lookup
        split: parsed.splits option.splits)

lemma stockNonneg_inlinePrice:
  "stockNonneg st \<Longrightarrow> stockNonneg (persisted st (inlinePrice today k input st))"
  by (auto simp: inlinePrice_def persisted_def Let_def itemNonneg_pushPrice
        intro!: stockNonneg_putItem dest: stockNonneg_lookup
        split: parsed.splits option.splits)

lemma stockNonneg_setQuantity:
  "stockNonneg st \<Longrightarrow> stockNonneg (persisted st (setQuantity today k input m st))"
  by (auto simp: setQuantity_def persisted_def Let_def itemNonneg_logQuantityChange
        intro!: stockNonneg_putItem itemNonneg_setQty dest: stockNonneg_lookup
        split: parsed.splits option.splits)

lemma stockNonneg_adjustQuantity:
  assumes "stockNonneg st"
  shows "stockNonneg (persisted st (adjustQuantity today k dec m st))"
proof (cases "map_of (items st) k")
  case None
  then show ?thesis using assms by (simp add: adjustQuantity_def persisted_def)
next
  case (Some it)
  then have it: "itemNonneg it" using assms by (rule stockNonneg_lookup [rotated])
  then have "0 \<le> qtyOr0 it m" by (rule itemNonneg_qtyOr0)
  then have "0 \<le> (if dec then max 0 (qtyOr0 it m - 1) else qtyOr0 it m + 1)" by simp
  then show ?thesis using assms Some it
    by (simp add: adjustQuantity_def persisted_def Let_def itemNonneg_logQuantityChange
          stockNonneg_putItem itemNonneg_setQty del: max.bounded_iff)
qed

lemma list_all_delete: "list_all P xs \<Longrightarrow> list_all P (AList.delete k xs)"
  by (induction xs) auto

lemma list_all_foldl_delete:
  "list_all P xs \<Longrightarrow> list_all P (foldl (\<lambda>its k. AList.delete k its) xs ks)"
  by (induction ks arbitrary: xs) (simp_all add: list_all_delete)

lemma stockNonneg_deleteItems:
  "stockNonneg st \<Longrightarrow> stockNonneg (persisted st (deleteItems keys confirmed st))"
  by (simp add: deleteItems_def persisted_def stockNonneg_def list_all_foldl_delete)

lemma stockNonneg_recordSale:
  assumes "stockNonneg st"
  shows "stockNonneg (persisted st (recordSale today d b a c i price qty manual st))"
proof (cases "recordSale today d b a c i price qty manual st")
  case (Inl e)
  then show ?thesis using assms by (simp add: persisted_def)
next
  case (Inr st')
  from recordSale_items [OF Inr] obtain q it
    where it: "map_of (items st) (normalizeName (trim i)) = Some it"
      and st': "items st' = AList.update (normalizeName (trim i))
         (logQuantityChange (setQty it (ym today d) (max 0 (qtyOr0 it (ym today d) - q)))
            (ym today d) (ymd today d) (- q) ''sale'')
         (items st)"
    by blast
  from it have "itemNonneg it" using assms by (auto dest: stockNonneg_lookup)
  then have "itemNonneg (logQuantityChange
         (setQty it (ym today d) (max 0 (qtyOr0 it (ym today d) - q)))
            (ym today d) (ymd today d) (- q) ''sale'')"
    by (simp add: itemNonneg_logQuantityChange itemNonneg_setQty)
  then have "stockNonneg st'" using assms
    by (simp add: stockNonneg_def st' list_all_update)
  then show ?thesis using Inr by (simp add: persisted_def)
qed

lemma stockNonneg_renderMonthlyReport:
  "stockNonneg (snd (renderMonthlyReport now today m st)) = stockNonneg st"
  by (simp add: stockNonneg_def items_renderMonthlyReport)

lemma stockNonneg_perform: "stockNonneg st \<Longrightarrow> stockNonneg (perform today a st)"
  by (cases a)
     (simp_all add: stockNonneg_upsertItem stockNonneg_updatePrice stockNonneg_inlinePrice
        stockNonneg_setQuantity stockNonneg_adjustQuantity stockNonneg_deleteItems
        stockNonneg_recordSale stockNonneg_renderMonthlyReport)

lemma stockNonneg_run: "stockNonneg st \<Longrightarrow> stockNonneg (run evs st)"
  by (induction evs arbitrary: st) (auto simp: stockNonneg_perform)

text \<open>The inline edit and the minus button write a value that is not negative whatever
  the stock was; the plus button writes the stock plus one.\<close>

lemma setQuantity_written:
  assumes "setQuantity today k input m st = Inr st'"
  shows "\<exists>it'. map_of (items st') k = Some it' \<and> 0 \<le> qtyOr0 it' m"
  using assms
  by (auto simp: setQuantity_def Let_def map_of_putItem qtyOr0_logQuantityChange qtyOr0_setQty
        split: option.splits parsed.splits)

lemma adjustQuantity_written:
  assumes "adjustQuantity today k dec m st = Inr st'" and "map_of (items st) k = Some it"
  shows "\<exists>it'. map_of (items st') k = Some it' \<and>
           qtyOr0 it' m = (if dec then max 0 (qtyOr0 it m - 1) else qtyOr0 it m + 1)"
  using assms
  by (auto simp: adjustQuantity_def Let_def map_of_putItem qtyOr0_logQuantityChange qtyOr0_setQty)

text \<open>
  Claim C2.  From a document without negative stock (the empty document is one), every
  sequence of actions, the inline quantity edits and the stepper clicks among them, leads
  to a document without negative stock: whatever item is looked up, its quantity for any
  month is at least 0.
\<close>

theorem stock_never_negative:
  assumes "stockNonneg st"
  shows "stockNonneg (run evs st) \<and>
         (\<forall>k it m. map_of (items (run evs st)) k = Some it \<longrightarrow> 0 \<le> qtyOr0 it m)"
proof -
  have "stockNonneg (run evs st)" using assms by (rule stockNonneg_run)
  then show ?thesis
    by (auto dest: stockNonneg_lookup intro: itemNonneg_qtyOr0)
qed

theorem stock_never_negative_witness:
  "stockNonneg riceDoc \<and>
   stockNonneg (run [(''2024-01-20'', SetQuantity ''rice'' (Num (- 3)) ''2024-01''),
                     (''2024-01-20'', AdjustQuantity ''rice'' True ''2024-01''),
                     (''2024-01-21'', AdjustQuantity ''rice'' False ''2024-01'')] riceDoc) \<and>
   map_option (\<lambda>it. qtyOr0 it ''2024-01'')
     (map_of (items (run [(''2024-01-20'', SetQuantity ''rice'' (Num (- 3)) ''2024-01''),
                          (''2024-01-20'', AdjustQuantity ''rice'' True ''2024-01''),
                          (''2024-01-21'', AdjustQuantity ''rice'' False ''2024-01'')] riceDoc))
        ''rice'') = Some 1"
proof -
  have a: "stockNonneg riceDoc" by code_simp
  have b: "map_option (\<lambda>it. qtyOr0 it ''2024-01'')
     (map_of (items (run [(''2024-01-20'', SetQuantity ''rice'' (Num (- 3)) ''2024-01''),
                          (''2024-01-20'', AdjustQuantity ''rice'' True ''2024-01''),
                          (''2024-01-21'', AdjustQuantity ''rice'' False ''2024-01'')] riceDoc))
        ''rice'') = Some 1"
    by code_simp
  from stock_never_negative [OF a] a b show ?thesis by blast
qed

section \<open>The stock and the audit trail of a sale\<close>

text \<open>What a successful sale does to the item: the stock of the month becomes
  \<open>max 0 (s - qty)\<close>, and the audit entry carries \<open>- qty\<close>.\<close>

lemma recordSale_stock_audit:
  assumes "recordSale today d b a c i price qty manual st = Inr st'"
  shows "\<exists>q it it'. qty = Num q \<and>
           map_of (items st) (normalizeName (trim i)) = Some it \<and>
           map_of (items st') (normalizeName (trim i)) = Some it' \<and>
           qtyOr0 it' (ym today d) = max 0 (qtyOr0 it (ym today d) - q) \<and>
           qtyHistory it' = qtyHistory it @
             [\<lparr>qh_month = ym today d, qh_date = ymd today d, qh_delta = - q,
               qh_source = ''sale''\<rparr>]"
proof -
  from recordSale_items [OF assms] obtain q it where h: "qty = Num q" "0 < q"
    "map_of (items st) (normalizeName (trim i)) = Some it"
    "items st' = AList.update (normalizeName (trim i))
       (logQuantityChange (setQty it (ym today d) (max 0 (qtyOr0 it (ym today d) - q)))
          (ym today d) (ymd today d) (- q) ''sale'')
       (items st)"
    by blast
  define it' where "it' =
     logQuantityChange (setQty it (ym today d) (max 0 (qtyOr0 it (ym today d) - q)))
       (ym today d) (ymd today d) (- q) ''sale''"
  have "map_of (items st') (normalizeName (trim i)) = Some it'"
    using h(4) by (simp add: it'_def update_conv')
  moreover have "qtyOr0 it' (ym today d) = max 0 (qtyOr0 it (ym today d) - q)"
    by (simp add: it'_def qtyOr0_logQuantityChange qtyOr0_setQty)
  moreover have "qtyHistory it' = qtyHistory it @
      [\<lparr>qh_month = ym today d, qh_date = ymd today d, qh_delta = - q, qh_source = ''sale''\<rparr>]"
    using h(2) by (simp add: it'_def logQuantityChange_def setQty_def)
  ultimately show ?thesis using h(1,3) by blast
qed

text \<open>When the stock covers the sale, the entry is the change of the stock.\<close>

lemma recordSale_audit_covered:
  assumes "recordSale today d b a c i price (Num q) manual st = Inr st'"
    and "map_of (items st) (normalizeName (trim i)) = Some it"
    and "q \<le> qtyOr0 it (ym today d)"
  shows "\<exists>it'. map_of (items st') (normalizeName (trim i)) = Some it' \<and>
           qh_delta (last (qtyHistory it')) = qtyOr0 it' (ym today d) - qtyOr0 it (ym today d)"
  using recordSale_stock_audit [OF assms(1)] assms(2,3) by auto

text \<open>
  Claim C4.  It holds for the stock, which becomes \<open>max 0 (s - qty)\<close>, and fails for the
  audit entry when the sale exceeds the stock: sixty pieces sold from a stock of fifty
  leave a stock of 0, a change of -50, and the entry logged carries -60.
\<close>

theorem recordSale_oversold_audit:
  "recordSale ''2024-01-10'' ''2024-01-10'' ''Bob'' ''Mill Lane 1'' ''555-0101'' ''Rice''
     (Num 12) (Num 60) None riceDoc = Inr riceOversoldDoc \<and>
   map_option (\<lambda>it. qtyOr0 it ''2024-01'') (map_of (items riceDoc) ''rice'') = Some 50 \<and>
   map_option (\<lambda>it. qtyOr0 it ''2024-01'') (map_of (items riceOversoldDoc) ''rice'') = Some 0 \<and>
   map_option (\<lambda>it. qh_delta (last (qtyHistory it))) (map_of (items riceOversoldDoc) ''rice'')
     = Some (- 60) \<and>
   max 0 (50 - 60) - 50 = (- 50 :: int)"
  by code_simp

section \<open>Deleting items\<close>

lemma foldl_delete_filter:
  "foldl (\<lambda>its k. AList.delete k its) xs ks = filter (\<lambda>e. fst e \<notin> set ks) xs"
proof (induction ks arbitrary: xs)
  case Nil
  then show ?case by simp
next
  case (Cons k ks)
  have "AList.delete k xs = filter (\<lambda>e. fst e \<noteq> k) xs"
    by (induction xs) auto
  then show ?case using Cons.IH [of "AList.delete k xs"]
    by (auto intro: filter_cong)
qed

lemma reportStep_rows:
  "set (fst (foldl (reportStep m) acc its)) =
     set (fst acc) \<union> {itemRow m it | it. it \<in> set its \<and> 0 < qtyOr0 it m}"
proof (induction its arbitrary: acc)
  case Nil
  then show ?case by simp
next
  case (Cons it its)
  show ?case
    unfolding foldl_Cons Cons.IH
    by (auto simp: reportStep_def itemRow_def Let_def)
qed

lemma monthlyReport_rows:
  "set (mr_rows (fst (renderMonthlyReport now today m st))) =
     {itemRow m it | k it. (k, it) \<in> set (items st) \<and> 0 < qtyOr0 it m}"
  by (force simp: renderMonthlyReport_def Let_def reportStep_rows)

lemma map_of_filter_key:
  "map_of (filter (\<lambda>e. fst e \<notin> K) xs) k = (if k \<in> K then None else map_of xs k)"
  by (induction xs) auto

text \<open>A declined confirmation deletes nothing.\<close>

lemma deleteItems_declined: "persisted st (deleteItems keys False st) = st"
  by (simp add: deleteItems_def persisted_def)

text \<open>
  Claim C9.  A confirmed deletion stores the document with exactly the entries of the
  selected keys removed from the items and nothing else changed; so the sales are the same
  list of the same records, no selected key is found any more, and the rows of a monthly
  report made afterwards are the rows of the items that were not selected.
\<close>

theorem deleteItems_frame:
  "persisted st (deleteItems keys True st)
     = st\<lparr>items := filter (\<lambda>e. fst e \<notin> set keys) (items st)\<rparr> \<and>
   sales (persisted st (deleteItems keys True st)) = sales st \<and>
   (\<forall>k \<in> set keys. map_of (items (persisted st (deleteItems keys True st))) k = None) \<and>
   set (mr_rows (fst (renderMonthlyReport now today m (persisted st (deleteItems keys True st)))))
     = {itemRow m it | k it. (k, it) \<in> set (items st) \<and> k \<notin> set keys \<and> 0 < qtyOr0 it m}"
proof -
  have eq: "persisted st (deleteItems keys True st)
     = st\<lparr>items := filter (\<lambda>e. fst e \<notin> set keys) (items st)\<rparr>"
    by (cases keys) (simp_all add: deleteItems_def persisted_def foldl_delete_filter del: foldl_Cons)
  have "set (mr_rows (fst (renderMonthlyReport now today m
            (st\<lparr>items := filter (\<lambda>e. fst e \<notin> set keys) (items st)\<rparr>))))
     = {itemRow m it | k it. (k, it) \<in> set (items st) \<and> k \<notin> set keys \<and> 0 < qtyOr0 it m}"
    unfolding monthlyReport_rows by auto
  then show ?thesis unfolding eq
    by (simp add: map_of_filter_key)
qed

theorem deleteItems_frame_witness:
  "persisted staleDoc (deleteItems [''rice''] True staleDoc) = staleDoc\<lparr>items := []\<rparr> \<and>
   sales (persisted staleDoc (deleteItems [''rice''] True staleDoc)) = sales staleDoc \<and>
   length (sales staleDoc) = 1 \<and>
   map_of (items staleDoc) ''rice'' \<noteq> None \<and>
   map_of (items (persisted staleDoc (deleteItems [''rice''] True staleDoc))) ''rice'' = None"
proof -
  have a: "filter (\<lambda>e. fst e \<notin> set [''rice'']) (items staleDoc) = []" by code_simp
  have b: "length (sales staleDoc) = 1" by code_simp
  have c: "map_of (items staleDoc) ''rice'' \<noteq> None" by code_simp
  from deleteItems_frame [of staleDoc "[''rice'']"] a b c show ?thesis by simp
qed

section \<open>Upserts and the price history\<close>

text \<open>A price pushed with a date that no entry exceeds becomes the current price.\<close>

lemma getLatestPrice_pushPrice:
  assumes "\<forall>e \<in> set (priceHistory it). ph_date e \<le> d"
  shows "getLatestPrice (pushPrice it p d) = p"
proof -
  let ?h = "priceHistory it"
  let ?h' = "priceHistory (pushPrice it p d)"
  have h': "?h' = ?h @ [\<lparr>ph_price = p, ph_date = d\<rparr>]" by (simp add: pushPrice_def)
  then have "?h' \<noteq> []" by simp
  from getLatestPrice_index [OF this] obtain i where i: "i < length ?h'"
    and pr: "getLatestPrice (pushPrice it p d) = ph_price (?h' ! i)"
    and tie: "\<forall>j<length ?h'. i < j \<longrightarrow> ph_date (?h' ! j) < ph_date (?h' ! i)"
    by blast
  have "i = length ?h"
  proof (rule ccontr)
    assume "i \<noteq> length ?h"
    with i h' have lt: "i < length ?h" by simp
    from tie have "length ?h < length ?h' \<longrightarrow> i < length ?h \<longrightarrow>
        ph_date (?h' ! length ?h) < ph_date (?h' ! i)"
      by blast
    moreover have "length ?h < length ?h'" by (simp add: h')
    ultimately have "ph_date (?h' ! length ?h) < ph_date (?h' ! i)" using lt by blast
    moreover have "?h' ! length ?h = \<lparr>ph_price = p, ph_date = d\<rparr>" by (simp add: h')
    moreover have "?h' ! i = ?h ! i" using lt by (simp add: h' nth_append)
    ultimately have "d < ph_date (?h ! i)" by simp
    moreover have "ph_date (?h ! i) \<le> d" using assms lt by simp
    ultimately show False by simp
  qed
  then show ?thesis using pr h' by simp
qed

text \<open>An accepted upsert of an existing item: what it stores as price history.\<close>

lemma upsertItem_existing:
  assumes "map_of (items st) k = Some it" and "normalizeName rawName = k"
    and "trim rawName \<noteq> []" and "0 < q"
  shows "\<exists>it'. map_of (items (persisted st (upsertItem today rawName (Num p) (Num q) d st))) k
             = Some it' \<and>
           priceHistory it' =
             priceHistory (if getLatestPrice it \<noteq> p then pushPrice it p (ymd today d) else it)"
  using assms
  by (simp add: upsertItem_def persisted_def Let_def normalizeName_trim map_of_putItem
        priceHistory_logQuantityChange setQty_def)

lemma historyOf_upsertItem:
  assumes "map_of (items st) k = Some it" and "normalizeName rawName = k"
    and "trim rawName \<noteq> []" and "0 < q"
  shows "historyOf (persisted st (upsertItem today rawName (Num p) (Num q) d st)) k
           = Some (if getLatestPrice it = p then priceHistory it
                   else priceHistory it @ [\<lparr>ph_price = p, ph_date = ymd today d\<rparr>])"
  using upsertItem_existing [OF assms, of today p d]
  by (auto simp: historyOf_def pushPrice_def)

text \<open>Two upserts at the same price can add two entries: the first one, dated before the
  price on record, does not change the current price, so the second one differs from it
  again.\<close>

theorem upsertItem_twice_backdated:
  "map_option length (historyOf riceDoc ''rice'') = Some 1 \<and>
   map_option length (historyOf riceBackdated1 ''rice'') = Some 2 \<and>
   map_option length (historyOf riceBackdated2 ''rice'') = Some 3"
  by code_simp

text \<open>
  Claim C5, as the code has it.  An accepted upsert of an existing item adds exactly one
  price-history entry when its price differs from the current price of the item, and none
  when it equals it.  A second upsert at the same price adds none when the first one was
  dated no earlier than every entry of the price history that it found.
\<close>

theorem upsertItem_price_history:
  assumes "map_of (items st) k = Some it" and "normalizeName rawName = k"
    and "trim rawName \<noteq> []" and "0 < q1" and "0 < q2"
  shows "historyOf (persisted st (upsertItem today1 rawName (Num p) (Num q1) d1 st)) k
           = Some (if getLatestPrice it = p then priceHistory it
                   else priceHistory it @ [\<lparr>ph_price = p, ph_date = ymd today1 d1\<rparr>]) \<and>
         ((\<forall>e \<in> set (priceHistory it). ph_date e \<le> ymd today1 d1) \<longrightarrow>
            historyOf
              (persisted (persisted st (upsertItem today1 rawName (Num p) (Num q1) d1 st))
                 (upsertItem today2 rawName (Num p) (Num q2) d2
                    (persisted st (upsertItem today1 rawName (Num p) (Num q1) d1 st)))) k
            = historyOf (persisted st (upsertItem today1 rawName (Num p) (Num q1) d1 st)) k)"
proof (intro conjI impI)
  show "historyOf (persisted st (upsertItem today1 rawName (Num p) (Num q1) d1 st)) k
           = Some (if getLatestPrice it = p then priceHistory it
                   else priceHistory it @ [\<lparr>ph_price = p, ph_date = ymd today1 d1\<rparr>])"
    using assms(1-4) by (rule historyOf_upsertItem)
next
  assume dated: "\<forall>e \<in> set (priceHistory it). ph_date e \<le> ymd today1 d1"
  let ?st1 = "persisted st (upsertItem today1 rawName (Num p) (Num q1) d1 st)"
  from upsertItem_existing [OF assms(1-4), of today1 p d1] obtain it1 where
    it1: "map_of (items ?st1) k = Some it1"
    and h1: "priceHistory it1 =
       priceHistory (if getLatestPrice it \<noteq> p then pushPrice it p (ymd today1 d1) else it)"
    by blast
  have "getLatestPrice it1 =
      getLatestPrice (if getLatestPrice it \<noteq> p then pushPrice it p (ymd today1 d1) else it)"
    using h1 by (simp add: getLatestPrice_def)
  also have "\<dots> = p"
    using getLatestPrice_pushPrice [OF dated, of p] by simp
  finally have latest: "getLatestPrice it1 = p" .
  have "historyOf (persisted ?st1 (upsertItem today2 rawName (Num p) (Num q2) d2 ?st1)) k
          = Some (priceHistory it1)"
    using historyOf_upsertItem [OF it1 assms(2,3,5), of today2 p d2] latest by simp
  also have "\<dots> = historyOf ?st1 k"
    using it1 by (simp add: historyOf_def)
  finally show "historyOf (persisted ?st1 (upsertItem today2 rawName (Num p) (Num q2) d2 ?st1)) k
                  = historyOf ?st1 k" .
qed

theorem upsertItem_price_history_witness:
  "map_of (items riceDoc) ''rice'' = Some riceItem \<and> normalizeName ''Rice'' = ''rice'' \<and>
   list_all (\<lambda>e. ph_date e \<le> ymd ''2024-02-02'' ''2024-02-01'') (priceHistory riceItem) \<and>
   historyOf (persisted riceDoc
       (upsertItem ''2024-02-02'' ''Rice'' (Num 12) (Num 1) ''2024-02-01'' riceDoc)) ''rice''
     = Some (priceHistory riceItem @ [\<lparr>ph_price = 12, ph_date = ''2024-02-01''\<rparr>]) \<and>
   historyOf
     (persisted (persisted riceDoc
          (upsertItem ''2024-02-02'' ''Rice'' (Num 12) (Num 1) ''2024-02-01'' riceDoc))
        (upsertItem ''2024-02-03'' ''Rice'' (Num 12) (Num 2) ''2024-01-20''
          (persisted riceDoc
             (upsertItem ''2024-02-02'' ''Rice'' (Num 12) (Num 1) ''2024-02-01'' riceDoc))))
     ''rice''
     = Some (priceHistory riceItem @ [\<lparr>ph_price = 12, ph_date = ''2024-02-01''\<rparr>])"
proof -
  have a: "map_of (items riceDoc) ''rice'' = Some riceItem" by (simp add: riceDoc_def)
  have b: "normalizeName ''Rice'' = ''rice''" by code_simp
  have c: "trim ''Rice'' \<noteq> []" by code_simp
  have d: "\<forall>e \<in> set (priceHistory riceItem). ph_date e \<le> ymd ''2024-02-02'' ''2024-02-01''"
    by code_simp
  have e: "ymd ''2024-02-02'' ''2024-02-01'' = ''2024-02-01''" by (simp add: ymd_def)
  have f: "getLatestPrice riceItem \<noteq> 12" by (simp add: riceItem_price)
  from upsertItem_price_history [OF a b c, of 1 2 "''2024-02-02''" 12 "''2024-02-01''"
      "''2024-02-03''" "''2024-01-20''"] a b d f
  show ?thesis by (simp add: e list_all_iff)
qed

section \<open>The yearly summary and the monthly reports\<close>

lemma foldl_add: "foldl (\<lambda>acc x. acc + f x) (a::rat) xs = a + sum_list (map f xs)"
  by (induction xs arbitrary: a) (simp_all add: add.assoc)

lemma reportStep_grand:
  "snd (foldl (reportStep m) acc its) =
     snd acc + sum_list (map (\<lambda>it. if 0 < qtyOr0 it m
                                    then getLatestPrice it * of_int (qtyOr0 it m) else 0) its)"
proof (induction its arbitrary: acc)
  case Nil
  then show ?case by simp
next
  case (Cons it its)
  show ?case
    unfolding foldl_Cons Cons.IH
    by (simp add: reportStep_def Let_def not_le [symmetric])
qed

lemma fallback_itemsTotal:
  "foldl (\<lambda>acc it. if 0 < qtyOr0 it m
                    then acc + of_int (qtyOr0 it m) * getLatestPrice it else acc) (a::rat) its =
     a + sum_list (map (\<lambda>it. if 0 < qtyOr0 it m
                              then getLatestPrice it * of_int (qtyOr0 it m) else 0) its)"
  by (induction its arbitrary: a) (simp_all add: mult.commute)

text \<open>Without a snapshot, the row of the yearly table holds the totals of the monthly
  report; with a fresh one as well.\<close>

lemma yearlyRow_fresh:
  assumes "snapshotFresh today st m"
  shows "yearlyRow today st m =
     \<lparr>yr_month = m,
      yr_itemsTotal = mr_grand (fst (renderMonthlyReport [] today m st)),
      yr_salesTotal = mr_salesTotal (fst (renderMonthlyReport [] today m st)),
      yr_salesProfit = mr_salesProfit (fst (renderMonthlyReport [] today m st)),
      yr_combined = mr_grand (fst (renderMonthlyReport [] today m st)) +
                    mr_salesTotal (fst (renderMonthlyReport [] today m st))\<rparr>"
proof (cases "map_of (monthlySnapshots st) m")
  case None
  then show ?thesis
    by (simp add: yearlyRow_def renderMonthlyReport_def Let_def monthSalesOf_def
          fallback_itemsTotal reportStep_grand)
next
  case (Some snap)
  then show ?thesis using assms
    by (simp add: yearlyRow_def snapshotFresh_def)
qed

lemma yearlyRows_fresh:
  assumes "list_all (snapshotFresh today st) ms"
  shows "map (yearlyRow today st) ms =
      map (\<lambda>m. \<lparr>yr_month = m,
        yr_itemsTotal = mr_grand (fst (renderMonthlyReport [] today m st)),
        yr_salesTotal = mr_salesTotal (fst (renderMonthlyReport [] today m st)),
        yr_salesProfit = mr_salesProfit (fst (renderMonthlyReport [] today m st)),
        yr_combined = mr_grand (fst (renderMonthlyReport [] today m st)) +
                      mr_salesTotal (fst (renderMonthlyReport [] today m st))\<rparr>) ms"
  using assms by (induction ms) (simp_all add: yearlyRow_fresh)

lemma yearly_totals_sums:
  "foldl (\<lambda>acc r.
       \<lparr>yt_items = yt_items acc + yr_itemsTotal r,
        yt_sales = yt_sales acc + yr_salesTotal r,
        yt_profit = yt_profit acc + yr_salesProfit r,
        yt_combined = yt_combined acc + yr_combined r\<rparr>) z rows =
     \<lparr>yt_items = yt_items z + sum_list (map yr_itemsTotal rows),
      yt_sales = yt_sales z + sum_list (map yr_salesTotal rows),
      yt_profit = yt_profit z + sum_list (map yr_salesProfit rows),
      yt_combined = yt_combined z + sum_list (map yr_combined rows)\<rparr>"
  by (induction rows arbitrary: z) (simp_all add: add.assoc)

lemma snapshotFresh_no_snapshot:
  "map_of (monthlySnapshots st) m = None \<Longrightarrow> snapshotFresh today st m"
  by (simp add: snapshotFresh_def)

text \<open>Opening the monthly report of a month makes its snapshot fresh.\<close>

lemma snapshotFresh_after_report:
  "snapshotFresh today (snd (renderMonthlyReport now today m st)) m"
  by (simp add: snapshotFresh_def renderMonthlyReport_def Let_def monthSalesOf_def update_conv')

text \<open>A snapshot taken before a sale stays in the yearly summary: the yearly totals then
  differ from the sums of the monthly reports of the same document.\<close>

theorem yearly_stale_snapshot:
  "map_of (monthlySnapshots staleDoc) ''2024-01'' \<noteq> None \<and>
   yt_items (snd (renderYearly ''2024-01-11'' 2024 staleDoc)) = 500 \<and>
   yt_items (monthlySum ''2024-01-11'' 2024 staleDoc) = 450 \<and>
   yt_sales (snd (renderYearly ''2024-01-11'' 2024 staleDoc)) = 0 \<and>
   yt_sales (monthlySum ''2024-01-11'' 2024 staleDoc) = 60 \<and>
   snd (renderYearly ''2024-01-11'' 2024 staleDoc) \<noteq> monthlySum ''2024-01-11'' 2024 staleDoc"
  by code_simp

text \<open>
  Claim C6, as the code has it.  When every month of the year either has no snapshot or has
  a snapshot that holds the totals of the monthly report of the document as it is now, the
  yearly totals (items, sales, profit, combined) are the sums over the twelve months of the
  totals of the monthly reports of that document.
\<close>

theorem yearly_equals_monthly_sum:
  assumes "list_all (snapshotFresh today st) (yearMonths year)"
  shows "snd (renderYearly today year st) = monthlySum today year st"
  unfolding renderYearly_def monthlySum_def Let_def snd_conv yearly_totals_sums
    yearlyRows_fresh [OF assms]
  by (simp add: comp_def)

theorem yearly_equals_monthly_sum_witness:
  "list_all (snapshotFresh ''2024-01-11'' freshDoc) (yearMonths 2024) \<and>
   map_of (monthlySnapshots freshDoc) ''2024-01'' \<noteq> None \<and>
   snd (renderYearly ''2024-01-11'' 2024 freshDoc) = monthlySum ''2024-01-11'' 2024 freshDoc \<and>
   monthlySum ''2024-01-11'' 2024 freshDoc
     = \<lparr>yt_items = 450, yt_sales = 60, yt_profit = 10, yt_combined = 510\<rparr>"
proof -
  have a: "list_all (snapshotFresh ''2024-01-11'' freshDoc) (yearMonths 2024)" by code_simp
  have b: "map_of (monthlySnapshots freshDoc) ''2024-01'' \<noteq> None" by code_simp
  have c: "monthlySum ''2024-01-11'' 2024 freshDoc
     = \<lparr>yt_items = 450, yt_sales = 60, yt_profit = 10, yt_combined = 510\<rparr>" by code_simp
  from yearly_equals_monthly_sum [OF a] a b c show ?thesis by simp
qed

text \<open>In particular the two agree for a year without any snapshot.\<close>

lemma yearly_without_snapshots:
  assumes "list_all (\<lambda>m. map_of (monthlySnapshots st) m = None) (yearMonths year)"
  shows "snd (renderYearly today year st) = monthlySum today year st"
proof -
  have "list_all (snapshotFresh today st) (yearMonths year)"
    using assms by (auto simp: list_all_iff snapshotFresh_no_snapshot)
  then show ?thesis
    unfolding renderYearly_def monthlySum_def Let_def snd_conv yearly_totals_sums
    by (simp add: yearlyRows_fresh comp_def)
qed

end
